theory Spec2Isabelle
  imports Main "HOL-Library.Word" "HOL-Library.Monad_Syntax"
begin

section \<open>procps \<open>w\<close>: best-process selection and the FROM field\<close>

text \<open>
  A shallow embedding of \<^verbatim>\<open>src/w.c\<close>: \<^verbatim>\<open>find_best_proc\<close> (the scan of the
  process table for one login session), the early return of \<^verbatim>\<open>showinfo\<close>, and the
  three routines that print the FROM column (\<^verbatim>\<open>print_host\<close>,
  \<^verbatim>\<open>print_display_or_interface\<close>, \<^verbatim>\<open>print_from\<close>).

  C integers keep their width: \<^verbatim>\<open>unsigned long long\<close> is \<open>64 word\<close>, \<^verbatim>\<open>int\<close>,
  \<^verbatim>\<open>unsigned\<close> and \<^verbatim>\<open>pid_t\<close> are \<open>32 word\<close> where only equality is taken, and the
  lengths and widths that are compared and subtracted (\<^verbatim>\<open>len\<close>, \<^verbatim>\<open>fromlen\<close>,
  \<^verbatim>\<open>restlen\<close>) are \<open>int\<close>. Output written with \<^verbatim>\<open>fputc\<close>/\<^verbatim>\<open>fputs\<close> is the
  returned string.
\<close>

subsection \<open>The process table\<close>

type_synonym ull = "64 word"
type_synonym c_int = "32 word"

text \<open>
  One stack of the reaped process table, with the items of \<^verbatim>\<open>cache_pids\<close> in the
  order of \<^verbatim>\<open>enum rel_items\<close>. Every field has the type through which
  \<^verbatim>\<open>find_best_proc\<close> reads it: \<^verbatim>\<open>PIDS_GETULL(PID)\<close> reads the pid item as an
  \<^verbatim>\<open>unsigned long long\<close>, \<^verbatim>\<open>PIDS_GETINT(TGID)\<close> the thread group id as an
  \<^verbatim>\<open>int\<close>, and so on.
\<close>

record pids_stack =
  EU_PID :: ull
  EU_TGID :: c_int
  EU_START :: ull
  EU_EUID :: c_int
  EU_RUID :: c_int
  EU_TPGID :: c_int
  EU_PGRP :: c_int
  EU_TTY :: c_int
  EU_TICS_ALL :: ull
  EU_CMDLINE :: string

definition MAX_CMD_WIDTH :: nat where
  "MAX_CMD_WIDTH = 512"

definition NUL :: char where
  "NUL = CHR 0x00"

text \<open>The text of a C string: the bytes before the first NUL.\<close>

definition c_str :: "char list \<Rightarrow> string" where
  "c_str bs = takeWhile (\<lambda>c. c \<noteq> NUL) bs"

text \<open>
  \<^verbatim>\<open>strncpy(dst, src, n)\<close> copies the text of \<open>src\<close>, at most \<open>n\<close> bytes of it,
  and fills the rest of the \<open>n\<close> bytes with NUL. The destination is read back as the
  text held in its first \<open>n\<close> bytes.
\<close>

definition strncpy :: "string \<Rightarrow> nat \<Rightarrow> string" where
  "strncpy src n = take n (c_str src)"

subsection \<open>\<^verbatim>\<open>find_best_proc\<close>\<close>

text \<open>
  The locals of \<^verbatim>\<open>find_best_proc\<close> that live across the loop, together with the
  caller's variables it writes through pointers (\<^verbatim>\<open>*jcpu\<close>, \<^verbatim>\<open>*pcpu\<close>,
  \<^verbatim>\<open>cmdline\<close>, \<^verbatim>\<open>*pid\<close>). \<open>found_utpid\<close> is the function's return value, and
  \<open>cmdline\<close> is the text that the caller's buffer holds.
\<close>

record best =
  found_utpid :: bool
  best_time :: ull
  secondbest_time :: ull
  jcpu :: ull
  pcpu :: ull
  cmdline :: string
  pid :: c_int

text \<open>
  The three assignments that appear together at lines 488-490, 500-502 and 513-515:
  command line, pid and process ticks of stack \<open>p\<close>. The pid is read as an
  \<^verbatim>\<open>unsigned long long\<close> and stored into a \<^verbatim>\<open>pid_t\<close>, which keeps its low 32 bits.
\<close>

definition copy_proc :: "pids_stack \<Rightarrow> best \<Rightarrow> best" where
  "copy_proc p s =
     s\<lparr>cmdline := strncpy (EU_CMDLINE p) MAX_CMD_WIDTH,
       pid := ucast (EU_PID p),
       pcpu := EU_TICS_ALL p\<rparr>"

text \<open>Lines 484-493: is this the login process?\<close>

definition login_proc :: "c_int \<Rightarrow> pids_stack \<Rightarrow> best \<Rightarrow> best" where
  "login_proc ut_pid p s =
     (if EU_TGID p = ut_pid then
        (let s1 = s\<lparr>found_utpid := True\<rparr> in
         if best_time s1 = 0 then copy_proc p (s1\<lparr>best_time := EU_START p\<rparr>)
         else s1)
      else s)"

text \<open>
  Lines 497-504: the second-best process, taken while the command line is still "-".
  The test \<^verbatim>\<open>cmdline[0] == '-' && cmdline[1] == 0\<close> of line 499 says that the
  text in the buffer is "-".
\<close>

definition is_unset :: "string \<Rightarrow> bool" where
  "is_unset c = (c = ''-'')"

definition second_best :: "pids_stack \<Rightarrow> best \<Rightarrow> best" where
  "second_best p s =
     (if \<not> (secondbest_time s \<noteq> 0 \<and> EU_START p \<le> secondbest_time s) then
        (let s1 = s\<lparr>secondbest_time := EU_START p\<rparr> in
         if is_unset (cmdline s1) then copy_proc p s1 else s1)
      else s)"

text \<open>Lines 505-511: the condition of the \<^verbatim>\<open>continue\<close> that skips the best-process update.\<close>

definition skip_best :: "bool \<Rightarrow> c_int \<Rightarrow> pids_stack \<Rightarrow> best \<Rightarrow> bool" where
  "skip_best ignoreuser uid p s =
     ((\<not> ignoreuser \<and> uid \<noteq> EU_EUID p \<and> uid \<noteq> EU_RUID p)
      \<or> EU_PGRP p \<noteq> EU_TPGID p
      \<or> EU_START p \<le> best_time s)"

text \<open>Lines 512-515.\<close>

definition new_best :: "pids_stack \<Rightarrow> best \<Rightarrow> best" where
  "new_best p s = copy_proc p (s\<lparr>best_time := EU_START p\<rparr>)"

text \<open>One iteration of the loop at lines 482-516, for the stack \<open>p\<close>.\<close>

definition scan_proc :: "bool \<Rightarrow> c_int \<Rightarrow> c_int \<Rightarrow> c_int \<Rightarrow> pids_stack \<Rightarrow> best \<Rightarrow> best" where
  "scan_proc ignoreuser uid ut_pid line p s =
     (let s1 = login_proc ut_pid p s in
      if EU_TTY p \<noteq> line then s1
      else
        (let s2 = s1\<lparr>jcpu := jcpu s1 + EU_TICS_ALL p\<rparr>;
             s3 = second_best p s2
         in if skip_best ignoreuser uid p s3 then s3 else new_best p s3))"

text \<open>The loop over \<^verbatim>\<open>reap->stacks[0 .. total_procs - 1]\<close>.\<close>

primrec scan_procs :: "bool \<Rightarrow> c_int \<Rightarrow> c_int \<Rightarrow> c_int \<Rightarrow> pids_stack list \<Rightarrow> best \<Rightarrow> best" where
  "scan_procs ignoreuser uid ut_pid line [] s = s"
| "scan_procs ignoreuser uid ut_pid line (p # ps) s =
     scan_procs ignoreuser uid ut_pid line ps (scan_proc ignoreuser uid ut_pid line p s)"

text \<open>
  \<^verbatim>\<open>find_best_proc\<close>. The calls that leave the program are parameters:
  \<open>getuid\<close> is the outcome of the uid lookup of lines 451-469 (\<^verbatim>\<open>getpwnam\<close>
  on the utmp user name, or \<^verbatim>\<open>sd_session_get_uid\<close>), \<open>None\<close> when it fails;
  \<open>ut_pid\<close> is the login pid of lines 475-480; \<open>line\<close> is the result of
  \<^verbatim>\<open>get_tty_device(tty)\<close>. \<open>cmdline0\<close> and \<open>pid0\<close> are what the caller's buffers
  hold at the call.
\<close>

definition find_best_proc ::
  "bool \<Rightarrow> c_int option \<Rightarrow> c_int \<Rightarrow> c_int \<Rightarrow> pids_stack list \<Rightarrow> string \<Rightarrow> c_int \<Rightarrow> best" where
  "find_best_proc ignoreuser getuid ut_pid line reap cmdline0 pid0 =
     (let s0 = \<lparr>found_utpid = False, best_time = 0, secondbest_time = 0,
                jcpu = 0, pcpu = 0, cmdline = cmdline0, pid = pid0\<rparr>
      in if ignoreuser then scan_procs True (- 1) ut_pid line reap s0
         else
           (case getuid of
              None \<Rightarrow> s0
            | Some uid \<Rightarrow> scan_procs False uid ut_pid line reap s0))"

text \<open>
  The candidate: the three values \<^verbatim>\<open>find_best_proc\<close> hands back about the process it
  chose, and the same three values as they are copied from one stack.
\<close>

definition candidate :: "best \<Rightarrow> string \<times> c_int \<times> ull" where
  "candidate s = (cmdline s, pid s, pcpu s)"

definition candidate_of :: "pids_stack \<Rightarrow> string \<times> c_int \<times> ull" where
  "candidate_of p = (strncpy (EU_CMDLINE p) MAX_CMD_WIDTH, ucast (EU_PID p), EU_TICS_ALL p)"

text \<open>
  Which of the three places wrote the candidate last. This is bookkeeping beside the
  program, not part of it: \<open>writer\<close> follows one iteration of \<open>scan_proc\<close> and
  records the last of the three copies that the iteration runs, and \<open>writers\<close> follows
  the loop. Lemmas \<open>writer_same\<close> and \<open>writer_copies\<close> below tie it to \<open>scan_proc\<close>.
\<close>

datatype origin = Login_proc | Second_best | New_best

definition writer ::
  "bool \<Rightarrow> c_int \<Rightarrow> c_int \<Rightarrow> c_int \<Rightarrow> pids_stack \<Rightarrow> best \<Rightarrow> origin option \<Rightarrow> origin option" where
  "writer ignoreuser uid ut_pid line p s w =
     (let s1 = login_proc ut_pid p s;
          w1 = (if EU_TGID p = ut_pid \<and> best_time s = 0 then Some Login_proc else w)
      in if EU_TTY p \<noteq> line then w1
         else
           (let s2 = s1\<lparr>jcpu := jcpu s1 + EU_TICS_ALL p\<rparr>;
                w2 = (if \<not> (secondbest_time s2 \<noteq> 0 \<and> EU_START p \<le> secondbest_time s2)
                         \<and> is_unset (cmdline s2)
                      then Some Second_best else w1);
                s3 = second_best p s2
            in if skip_best ignoreuser uid p s3 then w2 else Some New_best))"

primrec writers ::
  "bool \<Rightarrow> c_int \<Rightarrow> c_int \<Rightarrow> c_int \<Rightarrow> pids_stack list \<Rightarrow> best \<Rightarrow> origin option \<Rightarrow> origin option" where
  "writers ignoreuser uid ut_pid line [] s w = w"
| "writers ignoreuser uid ut_pid line (p # ps) s w =
     writers ignoreuser uid ut_pid line ps
       (scan_proc ignoreuser uid ut_pid line p s) (writer ignoreuser uid ut_pid line p s w)"

definition last_writer ::
  "bool \<Rightarrow> c_int option \<Rightarrow> c_int \<Rightarrow> c_int \<Rightarrow> pids_stack list \<Rightarrow> string \<Rightarrow> c_int \<Rightarrow> origin option" where
  "last_writer ignoreuser getuid ut_pid line reap cmdline0 pid0 =
     (let s0 = \<lparr>found_utpid = False, best_time = 0, secondbest_time = 0,
                jcpu = 0, pcpu = 0, cmdline = cmdline0, pid = pid0\<rparr>
      in if ignoreuser then writers True (- 1) ut_pid line reap s0 None
         else
           (case getuid of
              None \<Rightarrow> None
            | Some uid \<Rightarrow> writers False uid ut_pid line reap s0 None))"

text \<open>
  The interim promotion as the specification words it: the update happens when the
  start time of \<open>p\<close> is strictly greater than \<open>secondbest_time\<close>. It is compared with
  \<open>second_best\<close>, which is the code.
\<close>

definition interim_promotion_spec :: "pids_stack \<Rightarrow> best \<Rightarrow> best" where
  "interim_promotion_spec p s =
     (if secondbest_time s < EU_START p then
        (let s1 = s\<lparr>secondbest_time := EU_START p\<rparr> in
         if cmdline s1 = ''-'' then copy_proc p s1 else s1)
      else s)"

text \<open>
  The configuration of Scenario C of the specification: both stacks are on the
  session's terminal; \<open>A\<close> belongs to the session's user, is in the foreground group
  of its terminal and started at tick 200; \<open>B\<close> belongs to another user and started
  at tick 300.
\<close>

definition scenario_C :: "c_int \<Rightarrow> c_int \<Rightarrow> pids_stack \<Rightarrow> pids_stack \<Rightarrow> bool" where
  "scenario_C line uid A B \<longleftrightarrow>
     EU_TTY A = line \<and> EU_TTY B = line
     \<and> (EU_EUID A = uid \<or> EU_RUID A = uid) \<and> EU_PGRP A = EU_TPGID A \<and> EU_START A = 200
     \<and> EU_EUID B \<noteq> uid \<and> EU_RUID B \<noteq> uid \<and> EU_START B = 300"

text \<open>
  The ticks of the stacks on the terminal \<open>line\<close>, added up as natural numbers,
  without the wrap-around of \<^verbatim>\<open>unsigned long long\<close>.
\<close>

definition tty_ticks :: "c_int \<Rightarrow> pids_stack list \<Rightarrow> nat" where
  "tty_ticks line ps =
     sum_list (map (\<lambda>p. unat (EU_TICS_ALL p)) (filter (\<lambda>p. EU_TTY p = line) ps))"

subsection \<open>\<^verbatim>\<open>showinfo\<close>\<close>

text \<open>
  \<^verbatim>\<open>showinfo\<close> up to its first output. Before the call of \<^verbatim>\<open>find_best_proc\<close> it
  prints nothing: it sets \<^verbatim>\<open>cmdline\<close> to "-" and \<^verbatim>\<open>best_pid\<close> to -1 and cleans the
  tty name. When the call returns 0 it returns (lines 587-598). Everything it prints
  afterwards (lines 600-663: user, tty, FROM, login time, idle time, JCPU, PCPU, WHAT)
  depends on the clock, the locale and the terminal, and is the parameter \<open>line_of\<close>
  applied to what \<^verbatim>\<open>find_best_proc\<close> left in the caller's variables.
\<close>

definition showinfo ::
  "(best \<Rightarrow> string) \<Rightarrow> bool \<Rightarrow> c_int option \<Rightarrow> c_int \<Rightarrow> c_int \<Rightarrow> pids_stack list \<Rightarrow> string" where
  "showinfo line_of ignoreuser getuid ut_pid line reap =
     (let r = find_best_proc ignoreuser getuid ut_pid line reap ''-'' (- 1)
      in if \<not> found_utpid r then [] else line_of r)"

subsection \<open>The FROM column\<close>

text \<open>
  What the routines take from the C library. \<^verbatim>\<open>isprint\<close> depends on the locale
  (\<^verbatim>\<open>main\<close> calls \<^verbatim>\<open>setlocale(LC_ALL, "")\<close>), \<open>ntop4\<close> and \<open>ntop6\<close> are the
  texts \<^verbatim>\<open>inet_ntop\<close> produces for an IPv4 and an IPv6 address, and \<open>htonl\<close>
  depends on the byte order of the machine.
\<close>

record libc =
  isprint :: "char \<Rightarrow> bool"
  ntop4 :: "c_int \<Rightarrow> string"
  ntop6 :: "c_int \<times> c_int \<times> c_int \<times> c_int \<Rightarrow> string"
  htonl :: "c_int \<Rightarrow> c_int"

text \<open>
  A \<^verbatim>\<open>const char *\<close> is the list of the bytes of the array it points into, and a
  pointer into it is an index. Reading a byte beyond the array is undefined in C and
  \<open>None\<close> here; a routine that does so returns \<open>None\<close>.
\<close>

definition peek :: "char list \<Rightarrow> nat \<Rightarrow> char option" where
  "peek host i = (if i < length host then Some (host ! i) else None)"

text \<open>\<open>n\<close> spaces, none when \<open>n\<close> is not positive: the padding loops.\<close>

definition spaces :: "int \<Rightarrow> string" where
  "spaces n = replicate (nat n) (CHR '' '')"

text \<open>
  The loop of \<^verbatim>\<open>print_host\<close> (lines 111-121), with \<open>i\<close> for \<^verbatim>\<open>host\<close> and
  \<open>lastp\<close> for \<^verbatim>\<open>last\<close>. It returns the characters it prints; \<^verbatim>\<open>width\<close> is their
  number.
\<close>

function host_chars :: "libc \<Rightarrow> char list \<Rightarrow> nat \<Rightarrow> nat \<Rightarrow> string option" where
  "host_chars L host i lastp =
     (if i < lastp then
        do {
          c \<leftarrow> peek host i;
          if c = NUL then Some []
          else if isprint L c \<and> c \<noteq> CHR '' '' then
            do { out \<leftarrow> host_chars L host (i + 1) lastp; Some (c # out) }
          else Some ''-''
        }
      else Some [])"
  by pat_completeness auto
termination
  by (relation "measure (\<lambda>(L, host, i, lastp). lastp - i)") auto

definition print_host :: "libc \<Rightarrow> char list \<Rightarrow> int \<Rightarrow> int \<Rightarrow> string option" where
  "print_host L host len fromlen =
     (let len = (if len > fromlen then fromlen else len) in
      do {
        out \<leftarrow> host_chars L host 0 (nat len);
        let out = (if length out = 0 then ''-'' else out);
        Some (out @ spaces (fromlen - int (length out)))
      })"

text \<open>
  The three scanning loops of \<^verbatim>\<open>print_display_or_interface\<close> (lines 146, 152, 176):
  advance while inside the field, not at \<open>stop\<close> and at a printable byte.
\<close>

function skip_to :: "libc \<Rightarrow> char \<Rightarrow> char list \<Rightarrow> nat \<Rightarrow> nat \<Rightarrow> nat option" where
  "skip_to L stop host endp i =
     (if i < endp then
        do {
          c \<leftarrow> peek host i;
          if c \<noteq> stop \<and> isprint L c then skip_to L stop host endp (i + 1) else Some i
        }
      else Some i)"
  by pat_completeness auto
termination
  by (relation "measure (\<lambda>(L, stop, host, endp, i). endp - i)") auto

text \<open>The tests \<^verbatim>\<open>p < end && *p == c\<close> of lines 149, 154 and 178.\<close>

definition found_at :: "char list \<Rightarrow> nat \<Rightarrow> nat \<Rightarrow> char \<Rightarrow> bool option" where
  "found_at host endp i c =
     (if i < endp then do { d \<leftarrow> peek host i; Some (d = c) } else Some False)"

text \<open>
  The printing loop and the dash that follows it (lines 163-172, and again 187-195),
  from index \<open>i\<close> with \<open>len\<close> bytes left: printable bytes other than the space are
  printed; at the first other byte, a dash is printed unless that byte is NUL.
\<close>

function print_part :: "libc \<Rightarrow> char list \<Rightarrow> nat \<Rightarrow> int \<Rightarrow> string option" where
  "print_part L host i len =
     (if len > 0 then
        do {
          c \<leftarrow> peek host i;
          if isprint L c \<and> c \<noteq> CHR '' '' then
            do { out \<leftarrow> print_part L host (i + 1) (len - 1); Some (c # out) }
          else if c \<noteq> NUL then Some ''-''
          else Some []
        }
      else Some [])"
  by pat_completeness auto
termination
  by (relation "measure (\<lambda>(L, host, i, len). nat len)") auto

definition print_display_or_interface :: "libc \<Rightarrow> char list \<Rightarrow> int \<Rightarrow> int \<Rightarrow> string option" where
  "print_display_or_interface L host len restlen =
     (let endp = nat (if len > 0 then len else 0) in
      if restlen \<le> 0 then Some []
      else
        do {
          disp \<leftarrow> skip_to L (CHR '':'') host endp 0;
          colon \<leftarrow> found_at host endp disp (CHR '':'');
          out \<leftarrow>
            (if colon then
               do {
                 tmp \<leftarrow> skip_to L (CHR '':'') host endp (disp + 1);
                 colon2 \<leftarrow> found_at host endp tmp (CHR '':'');
                 if \<not> colon2 then
                   print_part L host disp (min (len - int disp) restlen)
                 else
                   do {
                     tmp \<leftarrow> skip_to L (CHR ''%'') host endp tmp;
                     percent \<leftarrow> found_at host endp tmp (CHR ''%'');
                     if percent then print_part L host tmp (min (len - int tmp) restlen)
                     else Some []
                   }
               }
             else Some []);
          Some (out @ spaces (restlen - int (length out)))
        })"

text \<open>
  The utmp entry, as far as \<^verbatim>\<open>print_from\<close> reads it: the array \<^verbatim>\<open>ut_host\<close> of
  \<open>UT_HOSTSIZE\<close> bytes (256 in glibc) and the four words of \<^verbatim>\<open>ut_addr_v6\<close>. Of a
  systemd session it reads the outcome of \<^verbatim>\<open>sd_session_get_remote_host\<close>,
  \<open>None\<close> when the call fails or yields no host.
\<close>

record utmp =
  ut_host :: "char list"
  ut_addr_v6 :: "c_int \<times> c_int \<times> c_int \<times> c_int"

record sd_session =
  remote_host :: "string option"

definition UT_HOSTSIZE :: int where
  "UT_HOSTSIZE = 256"

definition INET6_ADDRSTRLEN :: nat where
  "INET6_ADDRSTRLEN = 46"

definition IN6_IS_ADDR_V4MAPPED :: "libc \<Rightarrow> c_int \<times> c_int \<times> c_int \<times> c_int \<Rightarrow> bool" where
  "IN6_IS_ADDR_V4MAPPED L a =
     (case a of (a0, a1, a2, a3) \<Rightarrow> a0 = 0 \<and> a1 = 0 \<and> a2 = htonl L 0xffff)"

text \<open>
  \<^verbatim>\<open>inet_ntop\<close> into a buffer of \<open>sz\<close> bytes: the text, or NULL when the text
  and its NUL do not fit.
\<close>

definition inet_ntop :: "string \<Rightarrow> nat \<Rightarrow> string option" where
  "inet_ntop text sz = (if length (c_str text) < sz then Some (c_str text) else None)"

text \<open>
  \<^verbatim>\<open>print_from\<close>, in the build with systemd or elogind; \<open>session = None\<close> is the
  build without. \<^verbatim>\<open>buf\<close> is declared with \<^verbatim>\<open>fromlen + 1\<close> bytes, which is undefined
  for a negative \<^verbatim>\<open>fromlen\<close>.
\<close>

definition print_from ::
  "libc \<Rightarrow> sd_session option \<Rightarrow> utmp option \<Rightarrow> bool \<Rightarrow> int \<Rightarrow> string option" where
  "print_from L session u ip_addresses fromlen =
     (case session of
        Some sess \<Rightarrow>
          (case remote_host sess of
             None \<Rightarrow> print_host L [NUL] 0 fromlen
           | Some host \<Rightarrow> print_host L host (int (length (c_str host))) fromlen)
      | None \<Rightarrow>
          if fromlen < 0 then None
          else
            (case u of
               None \<Rightarrow> print_host L [NUL] 0 fromlen
             | Some ut \<Rightarrow>
                 if ip_addresses then
                   (let a = (if IN6_IS_ADDR_V4MAPPED L (ut_addr_v6 ut)
                             then (case ut_addr_v6 ut of (a0, a1, a2, a3) \<Rightarrow> (a3, 0, 0, 0))
                             else ut_addr_v6 ut);
                        buf = (case a of (a0, a1, a2, a3) \<Rightarrow>
                                 if a1 \<noteq> 0 \<or> a2 \<noteq> 0 \<or> a3 \<noteq> 0 then
                                   (case inet_ntop (ntop6 L a) INET6_ADDRSTRLEN of
                                      None \<Rightarrow> []
                                    | Some t \<Rightarrow> strncpy t (nat fromlen))
                                 else
                                   (if a0 \<noteq> 0 then
                                      (case inet_ntop (ntop4 L a0) (nat (fromlen + 1)) of
                                         None \<Rightarrow> []
                                       | Some t \<Rightarrow> t)
                                    else []));
                        buf = take (nat fromlen) buf;
                        len = int (length buf)
                    in if len \<noteq> 0 then
                         do {
                           rest \<leftarrow> print_display_or_interface L (ut_host ut) UT_HOSTSIZE (fromlen - len);
                           Some (buf @ rest)
                         }
                       else print_host L (ut_host ut) UT_HOSTSIZE fromlen)
                 else print_host L (ut_host ut) UT_HOSTSIZE fromlen))"

text \<open>The classification of the "C" locale, for evaluating the routines on examples.\<close>

definition isprint_C :: "char \<Rightarrow> bool" where
  "isprint_C c = (32 \<le> (of_char c :: nat) \<and> (of_char c :: nat) \<le> 126)"

subsection \<open>Sample inputs\<close>

text \<open>
  Two processes on the terminal with device number 34816 (\<^verbatim>\<open>pts/0\<close>), as in
  Scenario C of the specification: \<open>editor\<close> belongs to uid 1000, leads the foreground
  group of its terminal and started at tick 200; \<open>daemon\<close> belongs to root, is not in
  the foreground group and started at tick 300.
\<close>

definition editor :: pids_stack where
  "editor = \<lparr>EU_PID = 4711, EU_TGID = 4711, EU_START = 200, EU_EUID = 1000, EU_RUID = 1000,
     EU_TPGID = 4711, EU_PGRP = 4711, EU_TTY = 34816, EU_TICS_ALL = 7,
     EU_CMDLINE = ''vi notes''\<rparr>"

definition daemon :: pids_stack where
  "daemon = \<lparr>EU_PID = 4700, EU_TGID = 4700, EU_START = 300, EU_EUID = 0, EU_RUID = 0,
     EU_TPGID = 4711, EU_PGRP = 4700, EU_TTY = 34816, EU_TICS_ALL = 5,
     EU_CMDLINE = ''sshd: alice''\<rparr>"

text \<open>
  The login process of the session, \<^verbatim>\<open>login\<close> running as root with no controlling
  terminal, started at tick 100.
\<close>

definition login :: pids_stack where
  "login = \<lparr>EU_PID = 4242, EU_TGID = 4242, EU_START = 100, EU_EUID = 0, EU_RUID = 0,
     EU_TPGID = - 1, EU_PGRP = 4242, EU_TTY = 0, EU_TICS_ALL = 3,
     EU_CMDLINE = ''login -- alice''\<rparr>"

text \<open>
  A C library for evaluating the FROM column on examples: the "C" locale, a big-endian
  machine (\<^verbatim>\<open>htonl\<close> is the identity), and fixed address texts.
\<close>

definition sample_libc :: libc where
  "sample_libc = \<lparr>isprint = isprint_C, ntop4 = (\<lambda>a. ''192.168.1.5''),
     ntop6 = (\<lambda>a. ''fe80::1''), htonl = (\<lambda>x. x)\<rparr>"

section \<open>Properties of \<^verbatim>\<open>find_best_proc\<close>\<close>

lemmas scan_defs =
  scan_proc_def login_proc_def second_best_def skip_best_def new_best_def copy_proc_def
  is_unset_def Let_def

lemmas sample_defs =
  editor_def daemon_def login_def strncpy_def c_str_def NUL_def MAX_CMD_WIDTH_def

subsection \<open>JCPU\<close>

lemma jcpu_scan_proc:
  "jcpu (scan_proc ignoreuser uid ut_pid line p s) =
     (if EU_TTY p = line then jcpu s + EU_TICS_ALL p else jcpu s)"
  by (simp add: scan_defs)

lemma jcpu_scan_procs:
  "jcpu (scan_procs ignoreuser uid ut_pid line ps s) =
     jcpu s + sum_list (map EU_TICS_ALL (filter (\<lambda>p. EU_TTY p = line) ps))"
  by (induction ps arbitrary: s) (simp_all add: jcpu_scan_proc add.assoc)

text \<open>
  In \<^verbatim>\<open>unsigned long long\<close>, where the \<^verbatim>\<open>+=\<close> of line 496 wraps around, the JCPU is
  the sum of the ticks of the stacks on the terminal.
\<close>

lemma jcpu_find_best_proc:
  assumes "ignoreuser \<or> getuid \<noteq> None"
  shows "jcpu (find_best_proc ignoreuser getuid ut_pid line reap cmdline0 pid0) =
           sum_list (map EU_TICS_ALL (filter (\<lambda>p. EU_TTY p = line) reap))"
  using assms by (auto simp add: find_best_proc_def Let_def jcpu_scan_procs)

lemma unat_sum_list_mod:
  fixes f :: "'a \<Rightarrow> ull"
  shows "unat (sum_list (map f ps)) = sum_list (map (\<lambda>p. unat (f p)) ps) mod 2 ^ 64"
proof (induction ps)
  case Nil
  show ?case by simp
next
  case (Cons p ps)
  have "unat (f p + sum_list (map f ps)) = (unat (f p) + unat (sum_list (map f ps))) mod 2 ^ 64"
    by (simp add: unat_word_ariths)
  also have "\<dots> = (unat (f p) + sum_list (map (\<lambda>p. unat (f p)) ps) mod 2 ^ 64) mod 2 ^ 64"
    by (simp only: Cons.IH)
  also have "\<dots> = (unat (f p) + sum_list (map (\<lambda>p. unat (f p)) ps)) mod 2 ^ 64"
    by (rule mod_add_right_eq)
  finally show ?case by simp
qed

text \<open>
  Claim C1, with the wrap-around it needs. Once the uid of the session is known, or
  with \<^verbatim>\<open>-u\<close>, the JCPU that \<^verbatim>\<open>find_best_proc\<close> returns is the sum of the ticks of
  exactly the stacks whose tty is the session's device, taken modulo \<open>2^64\<close>; it is
  that sum itself whenever the sum is below \<open>2^64\<close>. Neither the uids of the stacks,
  nor \<open>ignoreuser\<close>, nor the process groups occur on the right-hand side. Without the
  lookup of the uid the function returns before the loop, with JCPU 0.
\<close>

theorem jcpu_is_wrapped_sum_of_tty_ticks:
  assumes "ignoreuser \<or> getuid \<noteq> None"
  shows "unat (jcpu (find_best_proc ignoreuser getuid ut_pid line reap cmdline0 pid0))
           = tty_ticks line reap mod 2 ^ 64
         \<and> (tty_ticks line reap < 2 ^ 64 \<longrightarrow>
              unat (jcpu (find_best_proc ignoreuser getuid ut_pid line reap cmdline0 pid0))
                = tty_ticks line reap)"
proof -
  have "unat (jcpu (find_best_proc ignoreuser getuid ut_pid line reap cmdline0 pid0))
           = tty_ticks line reap mod 2 ^ 64"
    unfolding jcpu_find_best_proc [OF assms] tty_ticks_def by (rule unat_sum_list_mod)
  then show ?thesis by simp
qed

theorem jcpu_is_wrapped_sum_of_tty_ticks_witness:
  "unat (jcpu (find_best_proc False (Some 1000) 4700 34816
           [editor, daemon\<lparr>EU_TTY := 34817\<rparr>, daemon] ''-'' (- 1))) = 12
   \<and> tty_ticks 34816 [editor, daemon\<lparr>EU_TTY := 34817\<rparr>, daemon] = 12"
  using jcpu_is_wrapped_sum_of_tty_ticks [of False "Some 1000" 4700 34816
           "[editor, daemon\<lparr>EU_TTY := 34817\<rparr>, daemon]" "''-''" "- 1"]
  by (simp add: editor_def daemon_def tty_ticks_def)

text \<open>
  Claim C1 as it is worded fails when the sum wraps around: with ticks \<open>2^64 - 1\<close> for
  \<open>daemon\<close> and 7 for \<open>editor\<close>, the ticks on the terminal add up to \<open>2^64 + 6\<close>, and
  the JCPU returned is 6.
\<close>

theorem jcpu_is_sum_counterexample:
  "(False \<or> Some (1000 :: c_int) \<noteq> None)
   \<and> unat (jcpu (find_best_proc False (Some 1000) 4242 34816
        [login, daemon\<lparr>EU_TICS_ALL := 18446744073709551615\<rparr>, editor] ''-'' (- 1))) = 6
   \<and> tty_ticks 34816 [login, daemon\<lparr>EU_TICS_ALL := 18446744073709551615\<rparr>, editor]
        = 18446744073709551622
   \<and> unat (jcpu (find_best_proc False (Some 1000) 4242 34816
        [login, daemon\<lparr>EU_TICS_ALL := 18446744073709551615\<rparr>, editor] ''-'' (- 1)))
      \<noteq> tty_ticks 34816 [login, daemon\<lparr>EU_TICS_ALL := 18446744073709551615\<rparr>, editor]"
  by (simp add: find_best_proc_def scan_defs sample_defs tty_ticks_def)

text \<open>
  Read as natural numbers, the JCPU is the sum of these ticks whenever that sum is
  below \<open>2^64\<close>.
\<close>

lemma unat_sum_list_no_wrap:
  fixes f :: "'a \<Rightarrow> ull"
  shows "sum_list (map (\<lambda>p. unat (f p)) ps) < 2 ^ 64 \<Longrightarrow>
     unat (sum_list (map f ps)) = sum_list (map (\<lambda>p. unat (f p)) ps)"
proof (induction ps)
  case Nil
  show ?case by simp
next
  case (Cons p ps)
  then have ih: "unat (sum_list (map f ps)) = sum_list (map (\<lambda>p. unat (f p)) ps)" by simp
  with Cons.prems have "unat (f p) + unat (sum_list (map f ps)) < 2 ^ LENGTH(64)" by simp
  then have "unat (f p + sum_list (map f ps)) = unat (f p) + unat (sum_list (map f ps))"
    by (rule unat_add_lem [THEN iffD1])
  with ih show ?case by simp
qed

lemma jcpu_without_wrap_around:
  assumes "ignoreuser \<or> getuid \<noteq> None" and "tty_ticks line reap < 2 ^ 64"
  shows "unat (jcpu (find_best_proc ignoreuser getuid ut_pid line reap cmdline0 pid0)) =
           tty_ticks line reap"
proof -
  from assms(2) have "unat (sum_list (map EU_TICS_ALL (filter (\<lambda>p. EU_TTY p = line) reap)))
      = tty_ticks line reap"
    unfolding tty_ticks_def by (rule unat_sum_list_no_wrap)
  with assms(1) show ?thesis
    by (auto simp add: find_best_proc_def Let_def jcpu_scan_procs)
qed

subsection \<open>The login process\<close>

lemma found_utpid_scan_proc:
  "found_utpid (scan_proc ignoreuser uid ut_pid line p s) =
     (found_utpid s \<or> EU_TGID p = ut_pid)"
  by (simp add: scan_defs)

lemma found_utpid_scan_procs:
  "found_utpid (scan_procs ignoreuser uid ut_pid line ps s) =
     (found_utpid s \<or> (\<exists>p\<in>set ps. EU_TGID p = ut_pid))"
  by (induction ps arbitrary: s) (auto simp add: found_utpid_scan_proc)

text \<open>
  Claim C3. Once the uid of the session is known, or with \<^verbatim>\<open>-u\<close>,
  \<^verbatim>\<open>find_best_proc\<close> returns true exactly when some stack of the table has the login
  pid as its thread group id; and when it returns false, \<^verbatim>\<open>showinfo\<close> prints nothing.
\<close>

theorem found_utpid_iff_login_proc_in_table:
  assumes "ignoreuser \<or> getuid \<noteq> None"
  shows "(found_utpid (find_best_proc ignoreuser getuid ut_pid line reap cmdline0 pid0)
            \<longleftrightarrow> (\<exists>p\<in>set reap. EU_TGID p = ut_pid))
         \<and> (\<not> found_utpid (find_best_proc ignoreuser getuid ut_pid line reap ''-'' (- 1))
            \<longrightarrow> showinfo line_of ignoreuser getuid ut_pid line reap = [])"
  using assms by (auto simp add: find_best_proc_def showinfo_def Let_def found_utpid_scan_procs)

theorem found_utpid_iff_login_proc_in_table_witness:
  "found_utpid (find_best_proc False (Some 1000) 4700 34816 [editor, daemon] ''-'' (- 1))
   \<and> \<not> found_utpid (find_best_proc False (Some 1000) 4242 34816 [editor, daemon] ''-'' (- 1))
   \<and> showinfo cmdline False (Some 1000) 4242 34816 [editor, daemon] = []"
  using found_utpid_iff_login_proc_in_table
          [of False "Some 1000" 4700 34816 "[editor, daemon]" "''-''" "- 1" cmdline]
        found_utpid_iff_login_proc_in_table
          [of False "Some 1000" 4242 34816 "[editor, daemon]" "''-''" "- 1" cmdline]
  by (simp add: editor_def daemon_def)

subsection \<open>The candidate\<close>

lemma candidate_scan_proc:
  "candidate (scan_proc ignoreuser uid ut_pid line p s) = candidate s
   \<or> candidate (scan_proc ignoreuser uid ut_pid line p s) = candidate_of p"
  by (simp add: scan_defs candidate_def candidate_of_def)

lemma candidate_scan_procs:
  "candidate (scan_procs ignoreuser uid ut_pid line ps s) = candidate s
   \<or> (\<exists>p\<in>set ps. candidate (scan_procs ignoreuser uid ut_pid line ps s) = candidate_of p)"
proof (induction ps arbitrary: s)
  case Nil
  show ?case by simp
next
  case (Cons p ps)
  let ?s' = "scan_proc ignoreuser uid ut_pid line p s"
  from Cons.IH [of ?s'] candidate_scan_proc [of ignoreuser uid ut_pid line p s]
  show ?case by auto
qed

lemma candidate_find_best_proc:
  "candidate (find_best_proc ignoreuser getuid ut_pid line reap cmdline0 pid0) = (cmdline0, pid0, 0)
   \<or> (\<exists>p\<in>set reap.
         candidate (find_best_proc ignoreuser getuid ut_pid line reap cmdline0 pid0) = candidate_of p)"
proof -
  let ?s0 = "\<lparr>found_utpid = False, best_time = 0, secondbest_time = 0,
                jcpu = 0, pcpu = 0, cmdline = cmdline0, pid = pid0\<rparr>"
  have c0: "candidate ?s0 = (cmdline0, pid0, 0)" by (simp add: candidate_def)
  show ?thesis
  proof (cases "ignoreuser")
    case True
    with candidate_scan_procs [of True "- 1" ut_pid line reap ?s0] c0
    show ?thesis by (simp add: find_best_proc_def)
  next
    case False
    show ?thesis
    proof (cases getuid)
      case None
      with False c0 show ?thesis by (simp add: find_best_proc_def)
    next
      case (Some uid)
      with False candidate_scan_procs [of False uid ut_pid line reap ?s0] c0
      show ?thesis by (simp add: find_best_proc_def)
    qed
  qed
qed

text \<open>
  Claim C10. \<^verbatim>\<open>showinfo\<close> calls \<^verbatim>\<open>find_best_proc\<close> with the command line "-" and the
  pid -1, and \<^verbatim>\<open>find_best_proc\<close> sets the process ticks to 0. After any number \<open>n\<close>
  of iterations of the loop, and so also at its end, command line, pid and process ticks
  are either these three initial values or were copied together from one stack among
  the \<open>n\<close> scanned ones: \<^verbatim>\<open>strncpy\<close> of its command line, its pid and its ticks.
\<close>

theorem candidate_is_initial_or_one_proc:
  "candidate (find_best_proc ignoreuser getuid ut_pid line (take n reap) ''-'' (- 1))
     = (''-'', - 1, 0)
   \<or> (\<exists>p\<in>set (take n reap).
         candidate (find_best_proc ignoreuser getuid ut_pid line (take n reap) ''-'' (- 1))
           = candidate_of p)"
  by (rule candidate_find_best_proc)

theorem candidate_is_initial_or_one_proc_witness:
  "candidate (find_best_proc False (Some 1000) 4242 34816 (take 1 [login, daemon, editor]) ''-'' (- 1))
     = candidate_of login
   \<and> candidate (find_best_proc False (Some 1000) 4242 34816 (take 0 [login, daemon, editor]) ''-'' (- 1))
     = (''-'', - 1, 0)"
  using candidate_is_initial_or_one_proc [of False "Some 1000" 4242 34816 1 "[login, daemon, editor]"]
        candidate_is_initial_or_one_proc [of False "Some 1000" 4242 34816 0 "[login, daemon, editor]"]
  by (simp add: find_best_proc_def scan_defs sample_defs candidate_def candidate_of_def)

subsection \<open>Which assignment wrote the candidate\<close>

text \<open>
  The bookkeeping of \<open>writer\<close> agrees with \<open>scan_proc\<close>: an iteration for which it
  records nothing leaves the candidate as it was, and one for which it records an
  origin leaves the candidate copied from the stack of that iteration.
\<close>

lemma writer_same:
  "writer ignoreuser uid ut_pid line p s None = None \<Longrightarrow>
     candidate (scan_proc ignoreuser uid ut_pid line p s) = candidate s"
  by (auto simp add: writer_def scan_defs candidate_def split: if_splits)

lemma writer_copies:
  "writer ignoreuser uid ut_pid line p s None = Some x \<Longrightarrow>
     candidate (scan_proc ignoreuser uid ut_pid line p s) = candidate_of p"
  by (auto simp add: writer_def scan_defs candidate_def candidate_of_def split: if_splits)

lemma writer_cases:
  "writer ignoreuser uid ut_pid line p s w =
     (case writer ignoreuser uid ut_pid line p s None of None \<Rightarrow> w | Some x \<Rightarrow> Some x)"
  by (simp add: writer_def Let_def)

subsection \<open>PCPU against JCPU\<close>

lemma word_le_add_no_overflow:
  fixes a t :: ull
  assumes "unat a + unat t < 2 ^ 64"
  shows "t \<le> a + t" and "b \<le> a \<Longrightarrow> b \<le> a + t"
proof -
  from assms have "unat a + unat t < 2 ^ LENGTH(64)" by simp
  then have eq: "unat (a + t) = unat a + unat t"
    by (rule unat_add_lem [THEN iffD1])
  show "t \<le> a + t" by (simp add: word_le_nat_alt eq)
  show "b \<le> a \<Longrightarrow> b \<le> a + t" by (simp add: word_le_nat_alt eq)
qed

lemma pcpu_scan_proc_New_best:
  assumes "writer ignoreuser uid ut_pid line p s w = Some New_best"
  shows "(EU_TTY p = line \<and> pcpu (scan_proc ignoreuser uid ut_pid line p s) = EU_TICS_ALL p)
         \<or> (w = Some New_best \<and> pcpu (scan_proc ignoreuser uid ut_pid line p s) = pcpu s)"
  using assms by (auto simp add: writer_def scan_defs split: if_splits)

lemma New_best_step:
  assumes w: "writer ignoreuser uid ut_pid line p s w = Some New_best"
    and inv: "w = Some New_best \<longrightarrow> pcpu s \<le> jcpu s"
    and no: "EU_TTY p = line \<longrightarrow> unat (jcpu s) + unat (EU_TICS_ALL p) < 2 ^ 64"
  shows "pcpu (scan_proc ignoreuser uid ut_pid line p s)
           \<le> jcpu (scan_proc ignoreuser uid ut_pid line p s)"
proof (cases "EU_TTY p = line")
  case True
  with no have n: "unat (jcpu s) + unat (EU_TICS_ALL p) < 2 ^ 64" by simp
  from pcpu_scan_proc_New_best [OF w] show ?thesis
  proof
    assume "EU_TTY p = line \<and> pcpu (scan_proc ignoreuser uid ut_pid line p s) = EU_TICS_ALL p"
    with word_le_add_no_overflow(1) [OF n] show ?thesis by (simp add: jcpu_scan_proc)
  next
    assume a: "w = Some New_best \<and> pcpu (scan_proc ignoreuser uid ut_pid line p s) = pcpu s"
    with inv have "pcpu s \<le> jcpu s" by simp
    from word_le_add_no_overflow(2) [OF n this] a True show ?thesis
      by (simp add: jcpu_scan_proc)
  qed
next
  case False
  with pcpu_scan_proc_New_best [OF w] inv show ?thesis by (auto simp add: jcpu_scan_proc)
qed

lemma New_best_scan_procs:
  assumes "writers ignoreuser uid ut_pid line ps s w = Some New_best"
    and "w = Some New_best \<longrightarrow> pcpu s \<le> jcpu s"
    and "unat (jcpu s) + tty_ticks line ps < 2 ^ 64"
  shows "pcpu (scan_procs ignoreuser uid ut_pid line ps s)
           \<le> jcpu (scan_procs ignoreuser uid ut_pid line ps s)"
  using assms
proof (induction ps arbitrary: s w)
  case Nil
  then show ?case by simp
next
  case (Cons p ps)
  let ?s' = "scan_proc ignoreuser uid ut_pid line p s"
  let ?w' = "writer ignoreuser uid ut_pid line p s w"
  let ?t = "if EU_TTY p = line then unat (EU_TICS_ALL p) else 0"
  have le: "unat (jcpu ?s') \<le> unat (jcpu s) + ?t"
    by (simp add: jcpu_scan_proc unat_word_ariths)
  from Cons.prems(3) have tot: "unat (jcpu s) + ?t + tty_ticks line ps < 2 ^ 64"
    by (auto simp add: tty_ticks_def)
  with le have 3: "unat (jcpu ?s') + tty_ticks line ps < 2 ^ 64" by linarith
  from tot have no: "EU_TTY p = line \<longrightarrow> unat (jcpu s) + unat (EU_TICS_ALL p) < 2 ^ 64"
    by (cases "EU_TTY p = line") simp_all
  have 2: "?w' = Some New_best \<longrightarrow> pcpu ?s' \<le> jcpu ?s'"
    using New_best_step [OF _ Cons.prems(2) no] by blast
  from Cons.prems(1) have 1: "writers ignoreuser uid ut_pid line ps ?s' ?w' = Some New_best"
    by simp
  from Cons.IH [OF 1 2 3] show ?case by simp
qed

text \<open>
  Claim C5, with the condition it needs. When the candidate that \<^verbatim>\<open>find_best_proc\<close>
  returns was written last by the assignments of lines 512-515 (the stack passed the
  test of lines 505-510), and the ticks of the stacks on the terminal add up to less
  than \<open>2^64\<close>, then PCPU is at most JCPU.
\<close>

theorem pcpu_le_jcpu_when_new_best:
  assumes "last_writer ignoreuser getuid ut_pid line reap cmdline0 pid0 = Some New_best"
    and "tty_ticks line reap < 2 ^ 64"
  shows "pcpu (find_best_proc ignoreuser getuid ut_pid line reap cmdline0 pid0)
           \<le> jcpu (find_best_proc ignoreuser getuid ut_pid line reap cmdline0 pid0)"
proof -
  let ?s0 = "\<lparr>found_utpid = False, best_time = 0, secondbest_time = 0,
                jcpu = 0, pcpu = 0, cmdline = cmdline0, pid = pid0\<rparr>"
  have *: "writers iu uid ut_pid line reap ?s0 None = Some New_best \<Longrightarrow>
      pcpu (scan_procs iu uid ut_pid line reap ?s0) \<le> jcpu (scan_procs iu uid ut_pid line reap ?s0)"
    for iu uid
    using New_best_scan_procs [of iu uid ut_pid line reap ?s0 None] assms(2) by simp
  from assms(1) show ?thesis
    by (auto simp add: last_writer_def find_best_proc_def Let_def * split: if_splits option.splits)
qed

theorem pcpu_le_jcpu_when_new_best_witness:
  "last_writer False (Some 1000) 4242 34816 [login, daemon, editor] ''-'' (- 1) = Some New_best
   \<and> tty_ticks 34816 [login, daemon, editor] = 12
   \<and> pcpu (find_best_proc False (Some 1000) 4242 34816 [login, daemon, editor] ''-'' (- 1))
       \<le> jcpu (find_best_proc False (Some 1000) 4242 34816 [login, daemon, editor] ''-'' (- 1))"
  using pcpu_le_jcpu_when_new_best [of False "Some 1000" 4242 34816 "[login, daemon, editor]" "''-''" "- 1"]
  by (simp add: last_writer_def writer_def scan_defs sample_defs tty_ticks_def)

text \<open>
  Claim C5 as it is worded fails when the sum wraps around: with ticks \<open>2^64 - 1\<close> for
  \<open>daemon\<close>, \<open>editor\<close> is taken by lines 512-515 with PCPU 7, and JCPU is
  \<open>(2^64 - 1) + 7 = 6\<close> in \<^verbatim>\<open>unsigned long long\<close>.
\<close>

theorem pcpu_le_jcpu_counterexample:
  "last_writer False (Some 1000) 4242 34816
       [login, daemon\<lparr>EU_TICS_ALL := - 1\<rparr>, editor] ''-'' (- 1) = Some New_best
   \<and> jcpu (find_best_proc False (Some 1000) 4242 34816
       [login, daemon\<lparr>EU_TICS_ALL := - 1\<rparr>, editor] ''-'' (- 1)) = 6
   \<and> pcpu (find_best_proc False (Some 1000) 4242 34816
       [login, daemon\<lparr>EU_TICS_ALL := - 1\<rparr>, editor] ''-'' (- 1)) = 7
   \<and> \<not> pcpu (find_best_proc False (Some 1000) 4242 34816
       [login, daemon\<lparr>EU_TICS_ALL := - 1\<rparr>, editor] ''-'' (- 1))
     \<le> jcpu (find_best_proc False (Some 1000) 4242 34816
       [login, daemon\<lparr>EU_TICS_ALL := - 1\<rparr>, editor] ''-'' (- 1))"
  by (simp add: last_writer_def find_best_proc_def writer_def scan_defs sample_defs)

subsection \<open>Scenario C\<close>

text \<open>
  Claim C2, with the conditions it needs. In the configuration of Scenario C, with the
  command line "-" at the call and the user filter on, \<^verbatim>\<open>find_best_proc\<close> returns the
  command line, pid and ticks of \<open>A\<close> when the table is \<open>[A, B]\<close> and the command line
  of \<open>A\<close> is not itself "-", and when the table is \<open>[B, A]\<close> and \<open>B\<close> is not the
  login process.
\<close>

theorem scenario_C_selects_A:
  assumes "scenario_C line uid A B"
    and "(reap = [A, B] \<and> strncpy (EU_CMDLINE A) MAX_CMD_WIDTH \<noteq> ''-'')
         \<or> (reap = [B, A] \<and> EU_TGID B \<noteq> ut_pid)"
  shows "candidate (find_best_proc False (Some uid) ut_pid line reap ''-'' pid0) = candidate_of A"
  using assms(2)
proof
  assume "reap = [A, B] \<and> strncpy (EU_CMDLINE A) MAX_CMD_WIDTH \<noteq> ''-''"
  with assms(1) show ?thesis
    by (auto simp add: scenario_C_def find_best_proc_def scan_defs candidate_def candidate_of_def)
next
  assume "reap = [B, A] \<and> EU_TGID B \<noteq> ut_pid"
  with assms(1) show ?thesis
    by (auto simp add: scenario_C_def find_best_proc_def scan_defs candidate_def candidate_of_def)
qed

theorem scenario_C_selects_A_witness:
  "scenario_C 34816 1000 editor daemon
   \<and> candidate (find_best_proc False (Some 1000) 4700 34816 [editor, daemon] ''-'' (- 1))
       = (''vi notes'', 4711, 7)
   \<and> candidate (find_best_proc False (Some 1000) 4242 34816 [daemon, editor] ''-'' (- 1))
       = (''vi notes'', 4711, 7)"
  using scenario_C_selects_A [of 34816 1000 editor daemon "[editor, daemon]" 4700 "- 1"]
        scenario_C_selects_A [of 34816 1000 editor daemon "[daemon, editor]" 4242 "- 1"]
  by (simp add: scenario_C_def sample_defs candidate_of_def)

text \<open>
  Claim C2 as it is worded fails in both orders. With \<open>daemon\<close> as the login process
  and first in the table, line 487 sets \<^verbatim>\<open>best_time\<close> to 300 and \<open>editor\<close>, started
  at 200, fails the test of line 509: \<open>daemon\<close> is returned. With \<open>editor\<close> first and
  its command line equal to "-", the test of line 499 succeeds again at \<open>daemon\<close>,
  which is copied over it.
\<close>

theorem scenario_C_counterexample:
  "scenario_C 34816 1000 editor daemon
   \<and> candidate (find_best_proc False (Some 1000) 4700 34816 [daemon, editor] ''-'' (- 1))
       = candidate_of daemon
   \<and> candidate_of daemon \<noteq> candidate_of editor
   \<and> scenario_C 34816 1000 (editor\<lparr>EU_CMDLINE := ''-''\<rparr>) daemon
   \<and> candidate (find_best_proc False (Some 1000) 4242 34816
        [editor\<lparr>EU_CMDLINE := ''-''\<rparr>, daemon] ''-'' (- 1)) = candidate_of daemon
   \<and> candidate_of daemon \<noteq> candidate_of (editor\<lparr>EU_CMDLINE := ''-''\<rparr>)"
  by (simp add: scenario_C_def find_best_proc_def scan_defs sample_defs candidate_def candidate_of_def)

subsection \<open>The second-best process\<close>

lemma secondbest_time_scan_proc:
  "EU_TTY p = line \<Longrightarrow>
     secondbest_time (scan_proc ignoreuser uid ut_pid line p s) =
       secondbest_time (second_best p s)"
  by (simp add: scan_defs)

text \<open>
  Claim C4, as the code has it. The step of lines 497-504 sets \<^verbatim>\<open>secondbest_time\<close>
  to the start time of \<open>p\<close> exactly when \<^verbatim>\<open>secondbest_time\<close> is still 0 or is
  strictly less than that start time, and at such an update it copies command line, pid
  and ticks of \<open>p\<close> exactly when the command line is still "-". The second part is the
  same for \<^verbatim>\<open>secondbest_time\<close> over a whole iteration for a stack on the terminal.
\<close>

theorem second_best_updates:
  "second_best p s =
     (if secondbest_time s = 0 \<or> secondbest_time s < EU_START p then
        (if cmdline s = ''-'' then copy_proc p (s\<lparr>secondbest_time := EU_START p\<rparr>)
         else s\<lparr>secondbest_time := EU_START p\<rparr>)
      else s)
   \<and> (EU_TTY p = line \<longrightarrow>
        secondbest_time (scan_proc ignoreuser uid ut_pid line p s) =
          (if secondbest_time s = 0 \<or> secondbest_time s < EU_START p then EU_START p
           else secondbest_time s))"
proof
  show *: "second_best p s =
     (if secondbest_time s = 0 \<or> secondbest_time s < EU_START p then
        (if cmdline s = ''-'' then copy_proc p (s\<lparr>secondbest_time := EU_START p\<rparr>)
         else s\<lparr>secondbest_time := EU_START p\<rparr>)
      else s)"
    by (auto simp add: second_best_def is_unset_def Let_def copy_proc_def not_le)
  show "EU_TTY p = line \<longrightarrow>
        secondbest_time (scan_proc ignoreuser uid ut_pid line p s) =
          (if secondbest_time s = 0 \<or> secondbest_time s < EU_START p then EU_START p
           else secondbest_time s)"
    by (simp add: secondbest_time_scan_proc * copy_proc_def)
qed

theorem second_best_updates_witness:
  "second_best daemon \<lparr>found_utpid = True, best_time = 100, secondbest_time = 200,
       jcpu = 12, pcpu = 0, cmdline = ''-'', pid = - 1\<rparr>
     = \<lparr>found_utpid = True, best_time = 100, secondbest_time = 300,
       jcpu = 12, pcpu = 5, cmdline = ''sshd: alice'', pid = 4700\<rparr>
   \<and> secondbest_time (scan_proc False 1000 4242 34816 daemon
        \<lparr>found_utpid = True, best_time = 100, secondbest_time = 200,
          jcpu = 7, pcpu = 0, cmdline = ''-'', pid = - 1\<rparr>) = 300"
  using second_best_updates [of daemon "\<lparr>found_utpid = True, best_time = 100, secondbest_time = 200,
       jcpu = 12, pcpu = 0, cmdline = ''-'', pid = - 1\<rparr>" 34816 False 1000 4242]
     second_best_updates [of daemon "\<lparr>found_utpid = True, best_time = 100, secondbest_time = 200,
       jcpu = 7, pcpu = 0, cmdline = ''-'', pid = - 1\<rparr>" 34816 False 1000 4242]
  by (simp add: sample_defs copy_proc_def)

text \<open>
  The step agrees with the wording of the specification unless both start times are 0.
\<close>

lemma second_best_is_spec:
  "secondbest_time s \<noteq> 0 \<or> EU_START p \<noteq> 0 \<Longrightarrow> second_best p s = interim_promotion_spec p s"
  by (auto simp add: second_best_def interim_promotion_spec_def is_unset_def Let_def
        copy_proc_def not_le word_greater_zero_iff)

text \<open>
  Claim C4 as it is worded fails for a stack with start time 0 while
  \<^verbatim>\<open>secondbest_time\<close> is 0: 0 is not strictly greater than 0, yet the test of line 497
  succeeds and the stack is copied over the "-". Such a stack never passes line 509,
  so without this copy the command line would stay "-".
\<close>

theorem second_best_counterexample:
  "second_best (editor\<lparr>EU_START := 0\<rparr>)
       \<lparr>found_utpid = False, best_time = 0, secondbest_time = 0,
         jcpu = 7, pcpu = 0, cmdline = ''-'', pid = - 1\<rparr>
     \<noteq> interim_promotion_spec (editor\<lparr>EU_START := 0\<rparr>)
       \<lparr>found_utpid = False, best_time = 0, secondbest_time = 0,
         jcpu = 7, pcpu = 0, cmdline = ''-'', pid = - 1\<rparr>
   \<and> cmdline (interim_promotion_spec (editor\<lparr>EU_START := 0\<rparr>)
       \<lparr>found_utpid = False, best_time = 0, secondbest_time = 0,
         jcpu = 7, pcpu = 0, cmdline = ''-'', pid = - 1\<rparr>) = ''-''
   \<and> candidate (find_best_proc False (Some 1000) 4242 34816 [editor\<lparr>EU_START := 0\<rparr>] ''-'' (- 1))
       = (''vi notes'', 4711, 7)"
  by (simp add: interim_promotion_spec_def find_best_proc_def scan_defs
        sample_defs candidate_def)

section \<open>Properties of the FROM column\<close>

declare host_chars.simps [simp del] skip_to.simps [simp del] print_part.simps [simp del]

lemmas from_defs =
  print_host_def print_display_or_interface_def found_at_def peek_def spaces_def
  host_chars.simps skip_to.simps print_part.simps sample_libc_def isprint_C_def NUL_def

subsection \<open>\<^verbatim>\<open>print_host\<close>\<close>

lemma host_chars_length:
  "lastp \<le> length host \<Longrightarrow>
     \<exists>out. host_chars L host i lastp = Some out \<and> length out \<le> lastp - i"
proof (induction L host i lastp rule: host_chars.induct)
  case (1 L host i lastp)
  show ?case
  proof (cases "i < lastp")
    case False
    then show ?thesis by (simp add: host_chars.simps [of L host i lastp])
  next
    case True
    with "1.prems" have pk: "peek host i = Some (host ! i)" by (simp add: peek_def)
    show ?thesis
    proof (cases "host ! i \<noteq> NUL \<and> isprint L (host ! i) \<and> host ! i \<noteq> CHR '' ''")
      case False
      with True pk show ?thesis by (auto simp add: host_chars.simps [of L host i lastp])
    next
      case go: True
      from "1.IH" [OF True pk] go "1.prems"
      obtain out where "host_chars L host (i + 1) lastp = Some out" "length out \<le> lastp - (i + 1)"
        by auto
      with True pk go show ?thesis by (auto simp add: host_chars.simps [of L host i lastp])
    qed
  qed
qed

lemma print_host_length:
  "0 < fromlen \<Longrightarrow> min len fromlen \<le> int (length host) \<Longrightarrow>
     \<exists>out. print_host L host len fromlen = Some out \<and> int (length out) = fromlen"
proof -
  assume a: "0 < fromlen" "min len fromlen \<le> int (length host)"
  let ?len = "if len > fromlen then fromlen else len"
  from a(2) have "nat ?len \<le> length host" by (auto simp add: min_def split: if_splits)
  from host_chars_length [OF this, of L 0]
  obtain out where o: "host_chars L host 0 (nat ?len) = Some out" "length out \<le> nat ?len"
    by auto
  from o(2) a(1) have "int (length out) \<le> fromlen" by (auto split: if_splits)
  with o(1) a(1) show ?thesis
    by (auto simp add: print_host_def Let_def spaces_def)
qed

text \<open>
  Claim C6. For a positive width, \<^verbatim>\<open>print_host\<close> prints exactly that many characters,
  whatever the bytes of the source are (none, a NUL first, only unprintable ones). The
  source must hold the bytes the loop may read: the smaller of \<^verbatim>\<open>len\<close> and
  \<^verbatim>\<open>fromlen\<close>.
\<close>

theorem print_host_fills_width:
  assumes "0 < fromlen" and "min len fromlen \<le> int (length host)"
  shows "\<exists>out. print_host L host len fromlen = Some out \<and> int (length out) = fromlen"
  using assms by (rule print_host_length)

theorem print_host_fills_width_witness:
  "(\<exists>out. print_host sample_libc ''abc def'' 7 10 = Some out \<and> int (length out) = 10)
   \<and> (\<exists>out. print_host sample_libc [NUL] 0 16 = Some out \<and> int (length out) = 16)
   \<and> (\<exists>out. print_host sample_libc [CHR 0x07, CHR 0x1B, CHR 0x7F] 3 8 = Some out
         \<and> int (length out) = 8)"
  using print_host_fills_width [of 10 7 "''abc def''" sample_libc]
        print_host_fills_width [of 16 0 "[NUL]" sample_libc]
        print_host_fills_width [of 8 3 "[CHR 0x07, CHR 0x1B, CHR 0x7F]" sample_libc]
  by simp

text \<open>Scenario D of the specification.\<close>

lemma print_host_scenario_D: "print_host sample_libc ''abc def'' 7 10 = Some ''abc-      ''"
  by (simp add: from_defs eval_nat_numeral)

subsection \<open>A width that is not positive\<close>

text \<open>
  Claim C7, as the code has it. With a width of zero or less,
  \<^verbatim>\<open>print_display_or_interface\<close> prints nothing (line 142), and \<^verbatim>\<open>print_host\<close>
  prints one dash: its loop does not run, and lines 127-130 print the dash that makes
  the column exist. Neither reads the source.
\<close>

theorem width_not_positive:
  "(restlen \<le> 0 \<longrightarrow> print_display_or_interface L host len restlen = Some [])
   \<and> (fromlen \<le> 0 \<longrightarrow> print_host L host len fromlen = Some ''-'')"
  by (simp add: print_display_or_interface_def print_host_def Let_def spaces_def
        host_chars.simps [of L host 0 0])

theorem width_not_positive_witness:
  "print_display_or_interface sample_libc ''myhost:0.0'' 10 0 = Some []
   \<and> print_display_or_interface sample_libc ''myhost:0.0'' 10 (- 2) = Some []
   \<and> print_host sample_libc ''myhost'' 6 0 = Some ''-''
   \<and> print_host sample_libc ''myhost'' 6 (- 2) = Some ''-''"
  using width_not_positive [of 0 sample_libc "''myhost:0.0''" 10 0]
        width_not_positive [of "- 2" sample_libc "''myhost:0.0''" 10 "- 2"]
        width_not_positive [of 0 sample_libc "''myhost''" 6 0]
        width_not_positive [of "- 2" sample_libc "''myhost''" 6 "- 2"]
  by simp

text \<open>Claim C7 as it is worded fails for \<^verbatim>\<open>print_host\<close>: the output is not empty.\<close>

theorem width_not_positive_counterexample:
  "print_host sample_libc ''myhost'' 6 0 = Some ''-''
   \<and> print_host sample_libc ''myhost'' 6 0 \<noteq> Some []
   \<and> print_host sample_libc [NUL] 0 (- 1) \<noteq> Some []"
  by (simp add: from_defs)

subsection \<open>\<^verbatim>\<open>print_display_or_interface\<close> and \<^verbatim>\<open>print_from\<close>\<close>

lemma skip_to_bounds:
  "endp \<le> length host \<Longrightarrow>
     \<exists>j. skip_to L stop host endp i = Some j \<and> i \<le> j \<and> (i \<le> endp \<longrightarrow> j \<le> endp)"
proof (induction L stop host endp i rule: skip_to.induct)
  case (1 L stop host endp i)
  show ?case
  proof (cases "i < endp")
    case False
    then show ?thesis by (simp add: skip_to.simps [of L stop host endp i])
  next
    case True
    with "1.prems" have pk: "peek host i = Some (host ! i)" by (simp add: peek_def)
    show ?thesis
    proof (cases "host ! i \<noteq> stop \<and> isprint L (host ! i)")
      case False
      with True pk show ?thesis by (auto simp add: skip_to.simps [of L stop host endp i])
    next
      case go: True
      from "1.IH" [OF True pk] go "1.prems" True
      obtain j where "skip_to L stop host endp (i + 1) = Some j" "i + 1 \<le> j" "j \<le> endp"
        by auto
      with True pk go show ?thesis by (auto simp add: skip_to.simps [of L stop host endp i])
    qed
  qed
qed

lemma found_at_Some:
  "endp \<le> length host \<Longrightarrow> \<exists>b. found_at host endp i c = Some b \<and> (b \<longrightarrow> i < endp)"
  by (auto simp add: found_at_def peek_def)

lemma print_part_length:
  "int i + len \<le> int (length host) \<Longrightarrow>
     \<exists>out. print_part L host i len = Some out \<and> int (length out) \<le> max 0 len"
proof (induction L host i len rule: print_part.induct)
  case (1 L host i len)
  show ?case
  proof (cases "len > 0")
    case False
    then show ?thesis by (simp add: print_part.simps [of L host i len])
  next
    case True
    with "1.prems" have pk: "peek host i = Some (host ! i)" by (simp add: peek_def)
    show ?thesis
    proof (cases "isprint L (host ! i) \<and> host ! i \<noteq> CHR '' ''")
      case False
      with True pk show ?thesis by (auto simp add: print_part.simps [of L host i len])
    next
      case go: True
      from "1.IH" [OF True pk] go "1.prems" True
      obtain out where "print_part L host (i + 1) (len - 1) = Some out" "int (length out) \<le> max 0 (len - 1)"
        by auto
      with True pk go show ?thesis by (auto simp add: print_part.simps [of L host i len])
    qed
  qed
qed

lemma print_display_or_interface_length:
  assumes "len \<le> int (length host)"
  shows "\<exists>out. print_display_or_interface L host len restlen = Some out
           \<and> int (length out) = max 0 restlen"
proof (cases "restlen \<le> 0")
  case True
  then show ?thesis by (simp add: print_display_or_interface_def Let_def)
next
  case False
  let ?endp = "nat (if len > 0 then len else 0)"
  from assms have e: "?endp \<le> length host" by auto
  have part: "\<exists>out. print_part L host j (min (len - int j) restlen) = Some out
         \<and> int (length out) \<le> restlen" if "j < ?endp" for j
  proof -
    from that assms have "int j + min (len - int j) restlen \<le> int (length host)"
      by (auto split: if_splits)
    from print_part_length [OF this, of L] False show ?thesis by auto
  qed
  from skip_to_bounds [OF e, of L "CHR '':''" 0]
  obtain disp where d: "skip_to L (CHR '':'') host ?endp 0 = Some disp" by auto
  from found_at_Some [OF e, of disp "CHR '':''"]
  obtain colon where c: "found_at host ?endp disp (CHR '':'') = Some colon" "colon \<longrightarrow> disp < ?endp"
    by auto
  from skip_to_bounds [OF e, of L "CHR '':''" "disp + 1"]
  obtain tmp where t: "skip_to L (CHR '':'') host ?endp (disp + 1) = Some tmp" by auto
  from found_at_Some [OF e, of tmp "CHR '':''"]
  obtain colon2 where c2: "found_at host ?endp tmp (CHR '':'') = Some colon2" by auto
  from skip_to_bounds [OF e, of L "CHR ''%''" tmp]
  obtain tmp2 where t2: "skip_to L (CHR ''%'') host ?endp tmp = Some tmp2" by auto
  from found_at_Some [OF e, of tmp2 "CHR ''%''"]
  obtain percent where pc: "found_at host ?endp tmp2 (CHR ''%'') = Some percent" "percent \<longrightarrow> tmp2 < ?endp"
    by auto
  have "\<exists>out. (if colon then
               do {
                 tmp \<leftarrow> skip_to L (CHR '':'') host ?endp (disp + 1);
                 colon2 \<leftarrow> found_at host ?endp tmp (CHR '':'');
                 if \<not> colon2 then
                   print_part L host disp (min (len - int disp) restlen)
                 else
                   do {
                     tmp \<leftarrow> skip_to L (CHR ''%'') host ?endp tmp;
                     percent \<leftarrow> found_at host ?endp tmp (CHR ''%'');
                     if percent then print_part L host tmp (min (len - int tmp) restlen)
                     else Some []
                   }
               }
             else Some []) = Some out \<and> int (length out) \<le> restlen"
  proof (cases colon)
    case False
    with \<open>\<not> restlen \<le> 0\<close> show ?thesis by simp
  next
    case True
    with c(2) have dl: "disp < ?endp" by simp
    show ?thesis
    proof (cases colon2)
      case False
      with True t c2 part [OF dl] show ?thesis by simp
    next
      case c2T: True
      show ?thesis
      proof (cases percent)
        case False
        with True c2T t c2 t2 pc(1) \<open>\<not> restlen \<le> 0\<close> show ?thesis by simp
      next
        case pT: True
        with pc(2) have "tmp2 < ?endp" by simp
        from part [OF this] True c2T t c2 t2 pc(1) pT show ?thesis by simp
      qed
    qed
  qed
  then obtain out where o: "(if colon then
               do {
                 tmp \<leftarrow> skip_to L (CHR '':'') host ?endp (disp + 1);
                 colon2 \<leftarrow> found_at host ?endp tmp (CHR '':'');
                 if \<not> colon2 then
                   print_part L host disp (min (len - int disp) restlen)
                 else
                   do {
                     tmp \<leftarrow> skip_to L (CHR ''%'') host ?endp tmp;
                     percent \<leftarrow> found_at host ?endp tmp (CHR ''%'');
                     if percent then print_part L host tmp (min (len - int tmp) restlen)
                     else Some []
                   }
               }
             else Some []) = Some out" "int (length out) \<le> restlen" by blast
  from False d c(1) o show ?thesis
    by (simp add: print_display_or_interface_def Let_def spaces_def)
qed

lemma length_c_str: "length (c_str bs) \<le> length bs"
  by (simp add: c_str_def length_takeWhile_le)

lemma print_from_length:
  assumes "0 < fromlen"
    and "case u of None \<Rightarrow> True | Some ut \<Rightarrow> int (length (ut_host ut)) = UT_HOSTSIZE"
  shows "\<exists>out. print_from L session u ip_addresses fromlen = Some out \<and> int (length out) = fromlen"
proof (cases session)
  case (Some sess)
  show ?thesis
  proof (cases "remote_host sess")
    case None
    with Some print_host_length [OF assms(1), of 0 "[NUL]" L] show ?thesis
      by (simp add: print_from_def)
  next
    case (Some host)
    have "min (int (length (c_str host))) fromlen \<le> int (length host)"
      using length_c_str [of host] by simp
    from print_host_length [OF assms(1) this, of L] Some \<open>session = Some sess\<close> show ?thesis
      by (simp add: print_from_def)
  qed
next
  case None
  show ?thesis
  proof (cases u)
    case nou: None
    with None assms(1) print_host_length [OF assms(1), of 0 "[NUL]" L] show ?thesis
      by (simp add: print_from_def)
  next
    case (Some ut)
    with assms(2) have sz: "int (length (ut_host ut)) = UT_HOSTSIZE" by simp
    then have "min UT_HOSTSIZE fromlen \<le> int (length (ut_host ut))" by simp
    from print_host_length [OF assms(1) this, of L]
    have host: "\<exists>out. print_host L (ut_host ut) UT_HOSTSIZE fromlen = Some out \<and> int (length out) = fromlen" .
    have ip: "\<exists>out. (if int (length (take (nat fromlen) buf)) \<noteq> 0 then
                         do {
                           rest \<leftarrow> print_display_or_interface L (ut_host ut) UT_HOSTSIZE (fromlen - int (length (take (nat fromlen) buf)));
                           Some (take (nat fromlen) buf @ rest)
                         }
                       else print_host L (ut_host ut) UT_HOSTSIZE fromlen) = Some out \<and> int (length out) = fromlen" for buf
    proof (cases "int (length (take (nat fromlen) buf)) \<noteq> 0")
      case False
      then have eq: "(int (length (take (nat fromlen) buf)) \<noteq> 0) = False" by simp
      show ?thesis unfolding eq if_False by (rule host)
    next
      case True
      let ?b = "take (nat fromlen) buf"
      from sz have "UT_HOSTSIZE \<le> int (length (ut_host ut))" by simp
      from print_display_or_interface_length [OF this, of L "fromlen - int (length ?b)"]
      obtain rest where r: "print_display_or_interface L (ut_host ut) UT_HOSTSIZE (fromlen - int (length ?b)) = Some rest"
         "int (length rest) = max 0 (fromlen - int (length ?b))" by auto
      have "int (length ?b) \<le> fromlen" using assms(1) by simp
      with r True show ?thesis by simp
    qed
    from None Some assms(1) host ip show ?thesis
      by (simp add: print_from_def Let_def)
  qed
qed

text \<open>
  Claim C9. For a positive width, and a utmp entry whose \<^verbatim>\<open>ut_host\<close> has its
  \<open>UT_HOSTSIZE\<close> bytes, \<^verbatim>\<open>print_from\<close> prints at least one character and at most
  \<^verbatim>\<open>fromlen\<close>, whatever the address and host bytes are and whatever \<^verbatim>\<open>inet_ntop\<close>
  yields. Lemma \<open>print_from_length\<close> has the exact number, \<^verbatim>\<open>fromlen\<close>.
\<close>

theorem print_from_width_bounds:
  assumes "0 < fromlen"
    and "case u of None \<Rightarrow> True | Some ut \<Rightarrow> int (length (ut_host ut)) = UT_HOSTSIZE"
  shows "\<exists>out. print_from L session u ip_addresses fromlen = Some out
           \<and> 1 \<le> length out \<and> int (length out) \<le> fromlen"
proof -
  from print_from_length [OF assms, of L session ip_addresses]
  obtain out where o: "print_from L session u ip_addresses fromlen = Some out"
    "int (length out) = fromlen" by blast
  from o(2) assms(1) have "1 \<le> length out" by linarith
  with o show ?thesis by simp
qed

theorem print_from_width_bounds_witness:
  "(\<exists>out. print_from sample_libc None
       (Some \<lparr>ut_host = ''myhost:5.0'' @ replicate 246 NUL, ut_addr_v6 = (5, 0, 0, 0)\<rparr>) True 16
       = Some out \<and> 1 \<le> length out \<and> int (length out) \<le> 16)
   \<and> (\<exists>out. print_from sample_libc (Some \<lparr>remote_host = None\<rparr>) None False 8
       = Some out \<and> 1 \<le> length out \<and> int (length out) \<le> 8)"
  using print_from_width_bounds [of 16
          "Some \<lparr>ut_host = ''myhost:5.0'' @ replicate 246 NUL, ut_addr_v6 = (5, 0, 0, 0)\<rparr>"
          sample_libc None True]
        print_from_width_bounds [of 8 None sample_libc "Some \<lparr>remote_host = None\<rparr>" False]
  by (simp add: UT_HOSTSIZE_def)

subsection \<open>The colon and the percent sign\<close>












end
